theory Spec2Isabelle
  imports Main "HOL-Library.Sublist"
begin

section \<open>Data model of the formatting validator\<close>

text \<open>
  The validator of \<^verbatim>\<open>app/utils/formatting.py\<close> works on Python strings, which are
  sequences of Unicode code points: \<^verbatim>\<open>len\<close>, indexing and slicing count code points.
  A string is therefore a list of code points, not a list of bytes.
\<close>

type_synonym ustr = "nat list"

text \<open>The enumerations of \<^verbatim>\<open>app/utils/enums.py\<close>.\<close>

datatype DocumentElementType = PARAGRAPH | TABLE | PICTURE

datatype DocumentTextElementType =
  T_DEFAULT | T_HEADING | T_LIST | T_LISTING | T_IMAGE | T_TEXT | T_TABLE | T_CODE | T_STRUCTURE

text \<open>
  The error dictionary that \<^verbatim>\<open>add_error\<close> builds has the five entries
  \<^verbatim>\<open>type\<close>, \<^verbatim>\<open>message\<close>, \<^verbatim>\<open>paragraph_text\<close>, \<^verbatim>\<open>index\<close> and
  \<^verbatim>\<open>element_type\<close> (\<^verbatim>\<open>None\<close> when the caller gives none).
  \<^verbatim>\<open>remove_duplicate_errors\<close> also provides for an entry \<^verbatim>\<open>element\<close>, a reference to
  the document object, which it leaves out of the comparison; \<open>e_element\<close> is that
  entry, \<open>None\<close> when the dictionary has no such key.
\<close>

record error_dict =
  e_type :: DocumentTextElementType
  e_message :: ustr
  e_paragraph_text :: ustr
  e_index :: int
  e_element_type :: "DocumentElementType option"
  e_element :: "nat option"

section \<open>remove_duplicate_errors\<close>

text \<open>
  \<^verbatim>\<open>key = tuple((k, v) for k, v in sorted(error.items()) if k != "element")\<close>:
  the entries other than \<^verbatim>\<open>element\<close>, in the order of their keys
  (\<^verbatim>\<open>element_type\<close>, \<^verbatim>\<open>index\<close>, \<^verbatim>\<open>message\<close>, \<^verbatim>\<open>paragraph_text\<close>, \<^verbatim>\<open>type\<close>).
\<close>

type_synonym error_key =
  "DocumentElementType option \<times> int \<times> ustr \<times> ustr \<times> DocumentTextElementType"

definition error_key :: "error_dict \<Rightarrow> error_key" where
  "error_key error =
     (e_element_type error, e_index error, e_message error, e_paragraph_text error, e_type error)"

text \<open>The loop over \<^verbatim>\<open>errors\<close>, with its two variables \<^verbatim>\<open>seen\<close> and \<^verbatim>\<open>unique_errors\<close>.\<close>

fun remove_duplicate_errors_loop ::
  "error_dict list \<Rightarrow> error_key set \<Rightarrow> error_dict list \<Rightarrow> error_dict list" where
  "remove_duplicate_errors_loop [] seen unique_errors = unique_errors"
| "remove_duplicate_errors_loop (error # errors) seen unique_errors =
     (let key = error_key error in
      if key \<notin> seen
      then remove_duplicate_errors_loop errors (insert key seen) (unique_errors @ [error])
      else remove_duplicate_errors_loop errors seen unique_errors)"

definition remove_duplicate_errors :: "error_dict list \<Rightarrow> error_dict list" where
  "remove_duplicate_errors errors = remove_duplicate_errors_loop errors {} []"

text \<open>
  The specification's reading of deduplication, to compare the loop with: the records in their
  original order, each kept at its first occurrence and every later record with the same tuple
  dropped.
\<close>

fun first_occurrences :: "('a \<Rightarrow> 'k) \<Rightarrow> 'a list \<Rightarrow> 'a list" where
  "first_occurrences key [] = []"
| "first_occurrences key (x # xs) =
     x # first_occurrences key (filter (\<lambda>y. key y \<noteq> key x) xs)"

section \<open>The document model\<close>

text \<open>
  The document library gives the validator a document as a list of body paragraphs and a list
  of tables. A paragraph has its text, its runs and its formatting; the model keeps the
  attributes that the modelled functions read or change. A length (font size, indent) is an
  integer number of English Metric Units, as in the library: \<^verbatim>\<open>.pt\<close> divides it by 12700.
  \<open>r_shd\<close> counts the red shadings that \<^verbatim>\<open>set_red_background\<close> has appended to the run,
  \<open>p_comments\<close> are the review comments attached to the paragraph.
\<close>

record Run =
  r_text :: ustr
  r_font_name :: "ustr option"
  r_font_size :: "int option"
  r_bold :: "bool option"
  r_shd :: nat

record comment =
  c_text :: ustr
  c_author :: ustr
  c_initials :: ustr

record Paragraph =
  p_text :: ustr
  p_style_name :: ustr
  p_runs :: "Run list"
  p_comments :: "comment list"

text \<open>
  A table is the list of its cells in row-major order (the library's \<^verbatim>\<open>_cells\<close>, from which
  \<^verbatim>\<open>table.cell(0, 0)\<close> takes the first); a cell is the list of its paragraphs.
\<close>

record Table =
  tb_cells :: "Paragraph list list"

record Document =
  paragraphs :: "Paragraph list"
  tables :: "Table list"

section \<open>add_comments_to_document\<close>

text \<open>
  \<^verbatim>\<open>set_red_background\<close> appends one shading element to the run's properties.
\<close>

definition set_red_background :: "Run \<Rightarrow> Run" where
  "set_red_background r = r\<lparr>r_shd := Suc (r_shd r)\<rparr>"

text \<open>
  \<^verbatim>\<open>Paragraph.add_comment\<close> belongs to the document library. Whether it raises for a given
  paragraph is not decided by the code under verification, so it is the parameter \<open>raises\<close>;
  when it does not raise, the comment is attached to the paragraph.
\<close>

definition add_comment ::
  "(Paragraph \<Rightarrow> bool) \<Rightarrow> Paragraph \<Rightarrow> ustr \<Rightarrow> ustr \<Rightarrow> ustr \<Rightarrow> Paragraph option" where
  "add_comment raises para msg author initials =
     (if raises para then None
      else Some (para\<lparr>p_comments := p_comments para @
                  [\<lparr>c_text = msg, c_author = author, c_initials = initials\<rparr>]\<rparr>))"

text \<open>
  The placeholder text of the run added to an empty first cell: the Russian word for
  "error" in capitals (U+041E U+0428 U+0418 U+0411 U+041A U+0410) and a full stop.
\<close>

definition placeholder_text :: ustr where
  "placeholder_text = [1054, 1064, 1048, 1041, 1050, 1040, 46]"

text \<open>
  \<^verbatim>\<open>cell.add_paragraph(style=None)\<close> followed by \<^verbatim>\<open>para.add_run\<close> of the placeholder text: a new paragraph
  with one run and no formatting of its own.
\<close>

definition placeholder_paragraph :: Paragraph where
  "placeholder_paragraph =
     \<lparr>p_text = placeholder_text, p_style_name = [],
      p_runs = [\<lparr>r_text = placeholder_text, r_font_name = None, r_font_size = None,
                 r_bold = None, r_shd = 0\<rparr>],
      p_comments = []\<rparr>"

text \<open>
  The \<^verbatim>\<open>try\<close> block of the table branch, on the table \<^verbatim>\<open>tables[idx]\<close>. Every exception
  raised inside it (\<^verbatim>\<open>IndexError\<close> for a table without cells or a cell without paragraphs,
  or a failure of \<^verbatim>\<open>add_comment\<close>) is caught and logged. When the first cell's first
  paragraph has no text, the placeholder paragraph has already been appended to the cell when
  \<^verbatim>\<open>add_comment\<close> is called, so it stays there even if the comment fails; its runs are
  shaded only after a successful comment.
\<close>

definition comment_table :: "(Paragraph \<Rightarrow> bool) \<Rightarrow> Table \<Rightarrow> ustr \<Rightarrow> ustr \<Rightarrow> ustr \<Rightarrow> Table" where
  "comment_table raises tbl msg author initials =
     (case tb_cells tbl of
        [] \<Rightarrow> tbl
      | cell # cells \<Rightarrow>
          (case cell of
             [] \<Rightarrow> tbl
           | first # rest \<Rightarrow>
               if p_text first \<noteq> []
               then (case add_comment raises first msg author initials of
                       None \<Rightarrow> tbl
                     | Some first' \<Rightarrow> tbl\<lparr>tb_cells := (first' # rest) # cells\<rparr>)
               else (case add_comment raises placeholder_paragraph msg author initials of
                       None \<Rightarrow> tbl\<lparr>tb_cells := (cell @ [placeholder_paragraph]) # cells\<rparr>
                     | Some para \<Rightarrow>
                         tbl\<lparr>tb_cells :=
                           (cell @ [para\<lparr>p_runs := map set_red_background (p_runs para)\<rparr>])
                             # cells\<rparr>)))"

text \<open>
  One iteration of the loop over \<^verbatim>\<open>errors\<close>. \<^verbatim>\<open>paragraphs\<close> and \<^verbatim>\<open>tables\<close> are read once
  before the loop; no iteration changes their lengths. An \<^verbatim>\<open>element_type\<close> that is neither
  \<^verbatim>\<open>PARAGRAPH\<close> nor \<^verbatim>\<open>TABLE\<close> leaves the document as it is.
\<close>

definition comment_error ::
  "(Paragraph \<Rightarrow> bool) \<Rightarrow> ustr \<Rightarrow> ustr \<Rightarrow> Document \<Rightarrow> error_dict \<Rightarrow> Document" where
  "comment_error raises author initials doc err =
     (let idx = e_index err; msg = e_message err; elem_type = e_element_type err in
      if elem_type = Some PARAGRAPH then
        (if 0 \<le> idx \<and> idx < int (length (paragraphs doc)) then
           (case add_comment raises (paragraphs doc ! nat idx) msg author initials of
              None \<Rightarrow> doc
            | Some para \<Rightarrow> doc\<lparr>paragraphs := (paragraphs doc)[nat idx := para]\<rparr>)
         else doc)
      else if elem_type = Some TABLE then
        (if 0 \<le> idx \<and> idx < int (length (tables doc)) then
           doc\<lparr>tables := (tables doc)[nat idx :=
                  comment_table raises (tables doc ! nat idx) msg author initials]\<rparr>
         else doc)
      else doc)"

section \<open>Files\<close>

text \<open>
  What the validator does with files: it asks whether a path exists, copies the input, opens
  the copy as a document, saves the document and writes the report. The file system is a map
  from paths to files. \<open>locked\<close> are the paths that cannot be opened (held exclusively by
  another process, or without permission): opening one raises \<^verbatim>\<open>PermissionError\<close>.
  \<open>write_error\<close> are the paths where a write raises another \<^verbatim>\<open>OSError\<close> (a missing
  directory, a full disk). \<open>writes\<close> is the log of the writes that completed, in order.
\<close>

datatype File = Docx Document | Json "error_dict list" | Data ustr | Directory

datatype py_exception =
  PermissionError | SameFileError | FileNotFoundError | IsADirectoryError | OSError
  | PackageNotFoundError | OtherException

record world =
  files :: "ustr \<Rightarrow> File option"
  locked :: "ustr set"
  write_error :: "ustr set"
  writes :: "ustr list"

definition path_exists :: "world \<Rightarrow> ustr \<Rightarrow> bool" where
  "path_exists w path = (files w path \<noteq> None)"

text \<open>Opening \<open>path\<close> for writing and writing \<open>f\<close> to it.\<close>

definition write_file :: "world \<Rightarrow> ustr \<Rightarrow> File \<Rightarrow> py_exception + world" where
  "write_file w path f =
     (if path \<in> locked w then Inl PermissionError
      else if files w path = Some Directory then Inl IsADirectoryError
      else if path \<in> write_error w then Inl OSError
      else Inr (w\<lparr>files := (files w)(path \<mapsto> f), writes := writes w @ [path]\<rparr>))"

text \<open>
  \<^verbatim>\<open>shutil.copyfile(src, dst)\<close>: refuses to copy a file onto itself, opens the source for
  reading, then the destination for writing.
\<close>

definition copyfile :: "world \<Rightarrow> ustr \<Rightarrow> ustr \<Rightarrow> py_exception + world" where
  "copyfile w src dst =
     (if src = dst \<and> files w src \<noteq> None then Inl SameFileError
      else (case files w src of
              None \<Rightarrow> Inl FileNotFoundError
            | Some Directory \<Rightarrow> Inl IsADirectoryError
            | Some f \<Rightarrow> (if src \<in> locked w then Inl PermissionError else write_file w dst f)))"

text \<open>\<^verbatim>\<open>Document(path)\<close>: the file must be there, readable and a document package.\<close>

definition open_document :: "world \<Rightarrow> ustr \<Rightarrow> py_exception + Document" where
  "open_document w path =
     (case files w path of
        None \<Rightarrow> Inl PackageNotFoundError
      | Some f \<Rightarrow>
          if path \<in> locked w then Inl PermissionError
          else (case f of Docx d \<Rightarrow> Inr d | _ \<Rightarrow> Inl PackageNotFoundError))"

definition save_document :: "world \<Rightarrow> Document \<Rightarrow> ustr \<Rightarrow> py_exception + world" where
  "save_document w doc path = write_file w path (Docx doc)"

text \<open>
  \<^verbatim>\<open>add_comments_to_document\<close>: the loop over the errors, then \<^verbatim>\<open>doc.save(output_path)\<close>,
  whose exception, if any, is not caught here.
\<close>

definition add_comments_to_document ::
  "(Paragraph \<Rightarrow> bool) \<Rightarrow> world \<Rightarrow> Document \<Rightarrow> error_dict list \<Rightarrow> ustr \<Rightarrow> ustr \<Rightarrow> ustr
     \<Rightarrow> py_exception + world" where
  "add_comments_to_document raises w doc errors output_path author initials =
     save_document w (foldl (comment_error raises author initials) doc errors) output_path"

section \<open>check_document_formatting\<close>

text \<open>
  The author (a ten-letter Cyrillic name, U+0414 ... U+0440) and the initials \<^verbatim>\<open>'F'\<close> that the
  entry point gives to the comments.
\<close>

definition author_name :: ustr where
  "author_name = [1044, 1086, 1082, 1091, 1084, 1077, 1085, 1090, 1105, 1088]"

definition author_initials :: ustr where
  "author_initials = [70]"

text \<open>
  The entry point. The six validation passes (structural elements, tables, images, headings,
  lists, ordinary paragraphs) run between opening the copy and deduplication; what this
  function does with files depends on them only through the concatenated error list they
  return, the shaded copy, and whether one of them raises. They are the parameter \<open>passes\<close>:
  \<open>Inl\<close> when a pass raises, else the error list before deduplication and the document after
  the passes. The result is the returned boolean and the file system afterwards.

  Every exception but the \<^verbatim>\<open>PermissionError\<close> of the copy is caught by the outer handler; both
  handlers return \<^verbatim>\<open>False\<close>.
\<close>

definition check_document_formatting ::
  "(Document \<Rightarrow> py_exception + error_dict list \<times> Document) \<Rightarrow> (Paragraph \<Rightarrow> bool) \<Rightarrow>
     world \<Rightarrow> ustr \<Rightarrow> ustr \<Rightarrow> ustr \<Rightarrow> bool \<times> world" where
  "check_document_formatting passes raises w file_path new_file_path json_file_path =
     (if \<not> path_exists w file_path then (False, w)
      else
       (case copyfile w file_path new_file_path of
          Inl e \<Rightarrow> (False, w)
        | Inr w1 \<Rightarrow>
           (if \<not> path_exists w1 new_file_path then (False, w1)
            else
             (case open_document w1 new_file_path of
                Inl e \<Rightarrow> (False, w1)
              | Inr new_doc \<Rightarrow>
                 (case passes new_doc of
                    Inl e \<Rightarrow> (False, w1)
                  | Inr (found, doc) \<Rightarrow>
                     (let all_errors = remove_duplicate_errors found in
                      if all_errors = []
                      then (case save_document w1 doc new_file_path of
                              Inl e \<Rightarrow> (False, w1)
                            | Inr w2 \<Rightarrow> (True, w2))
                      else (case write_file w1 json_file_path (Json all_errors) of
                              Inl e \<Rightarrow> (False, w1)
                            | Inr w2 \<Rightarrow>
                               (case add_comments_to_document raises w2 doc all_errors
                                       new_file_path author_name author_initials of
                                  Inl e \<Rightarrow> (False, w2)
                                | Inr w3 \<Rightarrow> (True, w3)))))))))"

section \<open>Strings\<close>

text \<open>
  \<^verbatim>\<open>str.isspace\<close>: the code points that \<^verbatim>\<open>str.strip()\<close> removes and that \<^verbatim>\<open>\s\<close> matches in
  a regular expression on strings (tab to carriage return, the separators U+001C to U+001F,
  space, U+0085, U+00A0, U+1680, U+2000 to U+200A, U+2028, U+2029, U+202F, U+205F, U+3000).
\<close>

definition isspace :: "nat \<Rightarrow> bool" where
  "isspace c = ((9 \<le> c \<and> c \<le> 13) \<or> (28 \<le> c \<and> c \<le> 32) \<or> c = 133 \<or> c = 160 \<or> c = 5760
      \<or> (8192 \<le> c \<and> c \<le> 8202) \<or> c = 8232 \<or> c = 8233 \<or> c = 8239 \<or> c = 8287 \<or> c = 12288)"

definition strip :: "ustr \<Rightarrow> ustr" where
  "strip s = rev (dropWhile isspace (rev (dropWhile isspace s)))"

definition startswith :: "ustr \<Rightarrow> ustr \<Rightarrow> bool" where
  "startswith s p = (take (length p) s = p)"


text \<open>\<^verbatim>\<open>kw in s\<close> for strings: \<open>kw\<close> occurs in \<open>s\<close> as a substring.\<close>

fun contains :: "ustr \<Rightarrow> ustr \<Rightarrow> bool" where
  "contains kw [] = (kw = [])"
| "contains kw (c # s) = (startswith (c # s) kw \<or> contains kw s)"

text \<open>
  \<^verbatim>\<open>str.lower()\<close>, as far as the validator depends on it. It is applied to a message only
  to search it for keywords made of the small Cyrillic letters U+0430 to U+044F, and the code
  points whose lower case lies in that range are those letters and their capitals U+0410 to
  U+042F. The model maps the Latin and Cyrillic capitals to their small letters and leaves every
  other code point as it is, which gives the same answer to each of these searches.
\<close>

definition lower_char :: "nat \<Rightarrow> nat" where
  "lower_char c = (if (65 \<le> c \<and> c \<le> 90) \<or> (1040 \<le> c \<and> c \<le> 1071) then c + 32
                   else if 1024 \<le> c \<and> c \<le> 1039 then c + 80 else c)"

definition lower :: "ustr \<Rightarrow> ustr" where
  "lower s = map lower_char s"

section \<open>add_error\<close>

text \<open>
  The keywords by which \<^verbatim>\<open>add_error\<close> classifies a message, in the order of its
  \<^verbatim>\<open>if\<close>/\<^verbatim>\<open>elif\<close> chain. They are Russian word stems, given here by their code points and
  named by their transliteration: heading, list, listing, table, picture, image, paragraph,
  code, structural, appendix.
\<close>

definition kw_zagolov :: ustr where
  "kw_zagolov = [1079, 1072, 1075, 1086, 1083, 1086, 1074]"

definition kw_spis :: ustr where
  "kw_spis = [1089, 1087, 1080, 1089]"

definition kw_listing :: ustr where
  "kw_listing = [1083, 1080, 1089, 1090, 1080, 1085, 1075]"

definition kw_tablits :: ustr where
  "kw_tablits = [1090, 1072, 1073, 1083, 1080, 1094]"

definition kw_risunok :: ustr where
  "kw_risunok = [1088, 1080, 1089, 1091, 1085, 1086, 1082]"

definition kw_izobrazh :: ustr where
  "kw_izobrazh = [1080, 1079, 1086, 1073, 1088, 1072, 1078]"

definition kw_abzats :: ustr where
  "kw_abzats = [1072, 1073, 1079, 1072, 1094]"

definition kw_kod :: ustr where
  "kw_kod = [1082, 1086, 1076]"

definition kw_strukturn :: ustr where
  "kw_strukturn = [1089, 1090, 1088, 1091, 1082, 1090, 1091, 1088, 1085]"

definition kw_prilozhen :: ustr where
  "kw_prilozhen = [1087, 1088, 1080, 1083, 1086, 1078, 1077, 1085]"

definition err_type_of :: "ustr \<Rightarrow> DocumentTextElementType" where
  "err_type_of msg =
     (let m = lower msg in
      if contains kw_zagolov m then T_HEADING
      else if contains kw_spis m then T_LIST
      else if contains kw_listing m then T_LISTING
      else if contains kw_tablits m then T_TABLE
      else if contains kw_risunok m \<or> contains kw_izobrazh m then T_IMAGE
      else if contains kw_abzats m then T_TEXT
      else if contains kw_kod m then T_CODE
      else if contains kw_strukturn m \<or> contains kw_prilozhen m then T_STRUCTURE
      else T_DEFAULT)"

text \<open>
  The \<^verbatim>\<open>element\<close> argument of \<^verbatim>\<open>add_error\<close> is a paragraph, a string, a table or absent.
  The paragraph text of the record is the stripped text of a paragraph that has text, the
  string itself, and empty otherwise. An absent \<^verbatim>\<open>index\<close> becomes \<open>-1\<close>. \<open>new_error\<close> is
  the dictionary, which \<^verbatim>\<open>add_error\<close> appends to the list.
\<close>

datatype element = NoElement | ParagraphElement Paragraph | StrElement ustr | TableElement Table

definition new_error ::
  "ustr \<Rightarrow> element \<Rightarrow> int option \<Rightarrow> DocumentElementType option \<Rightarrow> error_dict" where
  "new_error msg element index element_type =
     \<lparr>e_type = err_type_of msg,
      e_message = msg,
      e_paragraph_text =
        (case element of
           ParagraphElement p \<Rightarrow> (if p_text p \<noteq> [] then strip (p_text p) else [])
         | StrElement s \<Rightarrow> s
         | _ \<Rightarrow> []),
      e_index = (case index of None \<Rightarrow> - 1 | Some i \<Rightarrow> i),
      e_element_type = element_type,
      e_element = None\<rparr>"

definition add_error ::
  "error_dict list \<Rightarrow> ustr \<Rightarrow> element \<Rightarrow> int option \<Rightarrow> DocumentElementType option \<Rightarrow> error_dict list" where
  "add_error errors msg element index element_type =
     errors @ [new_error msg element index element_type]"

section \<open>Titles of the required sections\<close>

text \<open>The title of the introduction (``Vvedenie'').\<close>

definition title_introduction :: ustr where
  "title_introduction =
     [1042, 1074, 1077, 1076, 1077, 1085, 1080, 1077]"

text \<open>The title of the conclusion (``Zaklyuchenie'').\<close>

definition title_conclusion :: ustr where
  "title_conclusion =
     [1047, 1072, 1082, 1083, 1102, 1095, 1077, 1085, 1080, 1077]"

text \<open>The title of the list of information resources used (``Perechen ispolzovannykh informatsionnykh resursov'').\<close>

definition title_resources :: ustr where
  "title_resources =
     [1055, 1077, 1088, 1077, 1095, 1077, 1085, 1100, 32, 1080, 1089, 1087, 1086, 1083, 1100,
      1079, 1086, 1074, 1072, 1085, 1085, 1099, 1093, 32, 1080, 1085, 1092, 1086, 1088, 1084,
      1072, 1094, 1080, 1086, 1085, 1085, 1099, 1093, 32, 1088, 1077, 1089, 1091, 1088, 1089,
      1086, 1074]"

text \<open>
  The message of \<^verbatim>\<open>check_structural_elements\<close> for a required section that the scan has not
  met: ``a correctly formatted required structural element is missing:'', the title and a full
  stop.
\<close>

definition msg_missing_element :: "ustr \<Rightarrow> ustr" where
  "msg_missing_element element =
     [1054, 1090, 1089, 1091, 1090, 1089, 1090, 1074, 1091, 1077, 1090, 32, 1087, 1088, 1072,
      1074, 1080, 1083, 1100, 1085, 1086, 32, 1086, 1092, 1086, 1088, 1084, 1083, 1077, 1085,
      1085, 1099, 1081, 32, 1086, 1073, 1103, 1079, 1072, 1090, 1077, 1083, 1100, 1085, 1099,
      1081, 32, 1089, 1090, 1088, 1091, 1082, 1090, 1091, 1088, 1085, 1099, 1081, 32, 1101,
      1083, 1077, 1084, 1077, 1085, 1090, 58, 32] @ element @ [46]"

section \<open>Notions used to state the properties of the entry point\<close>

text \<open>
  A record has a location in a document when its element type is \<^verbatim>\<open>PARAGRAPH\<close> or
  \<^verbatim>\<open>TABLE\<close> and its index is within the paragraph list or the table list: the two guards
  of \<^verbatim>\<open>add_comments_to_document\<close>.
\<close>

definition locatable :: "Document \<Rightarrow> error_dict \<Rightarrow> bool" where
  "locatable doc err =
     ((e_element_type err = Some PARAGRAPH \<and> 0 \<le> e_index err \<and>
         e_index err < int (length (paragraphs doc)))
      \<or> (e_element_type err = Some TABLE \<and> 0 \<le> e_index err \<and>
         e_index err < int (length (tables doc))))"






text \<open>A path can be written: opening it for writing and writing to it raises nothing.\<close>

definition writable :: "world \<Rightarrow> ustr \<Rightarrow> bool" where
  "writable w path =
     (path \<notin> locked w \<and> path \<notin> write_error w \<and> files w path \<noteq> Some Directory)"

section \<open>Example inputs\<close>

text \<open>
  The paths \<^verbatim>\<open>in.docx\<close>, \<^verbatim>\<open>out.docx\<close> and \<^verbatim>\<open>errors.json\<close>, and the font name
  \<^verbatim>\<open>Times New Roman\<close>.
\<close>

definition in_path :: ustr where
  "in_path = [105, 110, 46, 100, 111, 99, 120]"

definition out_path :: ustr where
  "out_path = [111, 117, 116, 46, 100, 111, 99, 120]"

definition json_path :: ustr where
  "json_path = [101, 114, 114, 111, 114, 115, 46, 106, 115, 111, 110]"

definition times_new_roman :: ustr where
  "times_new_roman = [84, 105, 109, 101, 115, 32, 78, 101, 119, 32, 82, 111, 109, 97, 110]"

text \<open>
  A document without paragraphs and tables (the library's blank document). No pass iterates
  over anything in it; the scan of the structural elements reports the three required sections
  as missing, each with index 0.
\<close>

definition empty_document :: Document where
  "empty_document = \<lparr>paragraphs = [], tables = []\<rparr>"

definition missing_element_errors :: "error_dict list" where
  "missing_element_errors =
     add_error (add_error (add_error []
       (msg_missing_element title_introduction) (StrElement title_introduction)
         (Some 0) (Some PARAGRAPH))
       (msg_missing_element title_conclusion) (StrElement title_conclusion)
         (Some 0) (Some PARAGRAPH))
       (msg_missing_element title_resources) (StrElement title_resources)
         (Some 0) (Some PARAGRAPH)"

definition passes_missing :: "Document \<Rightarrow> py_exception + error_dict list \<times> Document" where
  "passes_missing doc = Inr (missing_element_errors, doc)"

text \<open>
  A document that consists of the three required titles, each in one bold run of 16 pt
  (203200 EMU) Times New Roman, and passes that find nothing to report.
\<close>

definition title_run :: "ustr \<Rightarrow> Run" where
  "title_run t = \<lparr>r_text = t, r_font_name = Some times_new_roman, r_font_size = Some 203200,
                  r_bold = Some True, r_shd = 0\<rparr>"

definition title_paragraph :: "ustr \<Rightarrow> Paragraph" where
  "title_paragraph t = \<lparr>p_text = t, p_style_name = [], p_runs = [title_run t], p_comments = []\<rparr>"

definition titles_document :: Document where
  "titles_document =
     \<lparr>paragraphs = [title_paragraph title_introduction, title_paragraph title_conclusion,
                    title_paragraph title_resources],
      tables = []\<rparr>"


text \<open>A library whose \<^verbatim>\<open>add_comment\<close> never raises.\<close>

definition no_raise :: "Paragraph \<Rightarrow> bool" where
  "no_raise p = False"

text \<open>
  A file system that holds the document \<open>doc\<close> at \<^verbatim>\<open>in.docx\<close> and nothing else, with every
  path readable and writable.
\<close>

definition world_of :: "Document \<Rightarrow> world" where
  "world_of doc =
     \<lparr>files = (\<lambda>p. None)(in_path \<mapsto> Docx doc), locked = {}, write_error = {}, writes = []\<rparr>"

text \<open>
  A record as \<^verbatim>\<open>add_error\<close> builds it, with a given index and element type; its message is
  the placeholder text.
\<close>

definition unlocated_error :: "int \<Rightarrow> DocumentElementType option \<Rightarrow> error_dict" where
  "unlocated_error i t =
     \<lparr>e_type = T_DEFAULT, e_message = placeholder_text, e_paragraph_text = [],
      e_index = i, e_element_type = t, e_element = None\<rparr>"



section \<open>check_structural_elements: required sections and appendix letters\<close>

text \<open>
  The word with which an appendix header starts (``Prilozhenie'', ten letters); with the
  space that follows it in \<^verbatim>\<open>text[len("... "):]\<close> that is eleven code points.
\<close>

definition appendix_word :: ustr where
  "appendix_word = [1055, 1088, 1080, 1083, 1086, 1078, 1077, 1085, 1080, 1077]"

text \<open>
  \<^verbatim>\<open>allowed_appendix_letters\<close> (lines 2063-2066): the capital Cyrillic letters from U+0410 to
  U+042F without U+0417 (Ze), U+0419 (Short I), U+041E (O), U+0427 (Che), U+042A (hard sign),
  U+042B (Yeru) and U+042C (soft sign). Each entry is a string of one letter.
\<close>

definition allowed_appendix_letters :: "ustr list" where
  "allowed_appendix_letters =
     [[1040], [1041], [1042], [1043], [1044], [1045], [1046], [1048], [1050],
      [1051], [1052], [1053], [1055], [1056], [1057], [1058], [1059], [1060],
      [1061], [1062], [1064], [1065], [1069], [1070], [1071]]"

text \<open>
  The two messages of the letter check: ``incorrect appendix letter: '...'. One letter of
  [...] is expected.'', where the list is printed as Python prints a list of strings, and
  ``repeated appendix letter: '...'.''.
\<close>

definition msg_invalid_letter :: "ustr \<Rightarrow> ustr" where
  "msg_invalid_letter letter =
     [1053, 1077, 1082, 1086, 1088, 1088, 1077, 1082, 1090, 1085, 1072, 1103, 32, 1073, 1091,
      1082, 1074, 1072, 32, 1087, 1088, 1080, 1083, 1086, 1078, 1077, 1085, 1080, 1103, 58, 32,
      39] @ letter @
     [39, 46, 32, 1054, 1078, 1080, 1076, 1072, 1077, 1090, 1089, 1103, 32, 1086, 1076, 1085,
      1072, 32, 1073, 1091, 1082, 1074, 1072, 32, 1080, 1079, 32, 91, 39, 1040, 39, 44, 32, 39,
      1041, 39, 44, 32, 39, 1042, 39, 44, 32, 39, 1043, 39, 44, 32, 39, 1044, 39, 44, 32, 39,
      1045, 39, 44, 32, 39, 1046, 39, 44, 32, 39, 1048, 39, 44, 32, 39, 1050, 39, 44, 32, 39,
      1051, 39, 44, 32, 39, 1052, 39, 44, 32, 39, 1053, 39, 44, 32, 39, 1055, 39, 44, 32, 39,
      1056, 39, 44, 32, 39, 1057, 39, 44, 32, 39, 1058, 39, 44, 32, 39, 1059, 39, 44, 32, 39,
      1060, 39, 44, 32, 39, 1061, 39, 44, 32, 39, 1062, 39, 44, 32, 39, 1064, 39, 44, 32, 39,
      1065, 39, 44, 32, 39, 1069, 39, 44, 32, 39, 1070, 39, 44, 32, 39, 1071, 39, 93, 46]"

definition msg_duplicate_letter :: "ustr \<Rightarrow> ustr" where
  "msg_duplicate_letter letter =
     [1055, 1086, 1074, 1090, 1086, 1088, 1103, 1102, 1097, 1072, 1103, 1089, 1103, 32, 1073,
      1091, 1082, 1074, 1072, 32, 1087, 1088, 1080, 1083, 1086, 1078, 1077, 1085, 1080, 1103,
      58, 32, 39] @ letter @ [39, 46]"

text \<open>
  The variables of the scan that the letter check and the report of missing sections use:
  the error list \<^verbatim>\<open>errors\<close>, \<^verbatim>\<open>structural_paragraphs\<close> (paragraphs are referred to by their position
  in \<^verbatim>\<open>doc.paragraphs\<close>), the dictionary \<^verbatim>\<open>expected_elements\<close> in the order of its keys,
  and the set \<^verbatim>\<open>appendix_letters\<close>.
\<close>

record structural_state =
  s_errors :: "error_dict list"
  s_structural_paragraphs :: "nat list"
  s_expected_elements :: "(ustr \<times> bool) list"
  s_appendix_letters :: "ustr set"

definition initial_structural_state :: structural_state where
  "initial_structural_state =
     \<lparr>s_errors = [], s_structural_paragraphs = [],
      s_expected_elements =
        [(title_introduction, False), (title_conclusion, False), (title_resources, False)],
      s_appendix_letters = {}\<rparr>"

text \<open>
  One iteration of the loop of \<^verbatim>\<open>check_structural_elements\<close> over the paragraphs (lines
  2068-2548), as far as it concerns these variables: a paragraph without text is skipped; a
  paragraph whose text is one of the required titles marks the title as present (lines
  2077-2080, 2165); a paragraph whose text starts with the appendix word goes through the
  letter check (lines 2168-2193, 2277). The formatting checks of these two branches (font,
  size, bold, alignment, indents, spacing) and the branches for listings and code add further
  errors and shade runs; they read the paragraph only and neither read nor change
  \<^verbatim>\<open>expected_elements\<close> and \<^verbatim>\<open>appendix_letters\<close>. They are not part of this model, whose
  error list is therefore the sub-list of the letter errors and of the missing-section errors.
\<close>

definition structural_step :: "nat \<Rightarrow> Paragraph \<Rightarrow> structural_state \<Rightarrow> structural_state" where
  "structural_step i paragraph st =
     (let text = strip (p_text paragraph) in
      if text = [] then st
      else if text \<in> set (map fst (s_expected_elements st)) then
        st\<lparr>s_expected_elements :=
              map (\<lambda>(k, v). if k = text then (k, True) else (k, v)) (s_expected_elements st),
           s_structural_paragraphs := s_structural_paragraphs st @ [i]\<rparr>
      else if startswith text appendix_word then
        (let st1 = st\<lparr>s_structural_paragraphs := s_structural_paragraphs st @ [i]\<rparr>;
             letter = strip (drop 11 text) in
         if length letter \<noteq> 1 \<or> letter \<notin> set allowed_appendix_letters then
           st1\<lparr>s_errors := add_error (s_errors st1) (msg_invalid_letter letter)
                             (ParagraphElement paragraph) (Some (int i)) (Some PARAGRAPH)\<rparr>
         else if letter \<in> s_appendix_letters st1 then
           st1\<lparr>s_errors := add_error (s_errors st1) (msg_duplicate_letter letter)
                             (ParagraphElement paragraph) (Some (int i)) (Some PARAGRAPH)\<rparr>
         else st1\<lparr>s_appendix_letters := insert letter (s_appendix_letters st1)\<rparr>)
      else st)"

text \<open>The loop \<^verbatim>\<open>for i, paragraph in enumerate(doc.paragraphs)\<close>, from position \<open>i\<close> on.\<close>

fun structural_scan :: "nat \<Rightarrow> Paragraph list \<Rightarrow> structural_state \<Rightarrow> structural_state" where
  "structural_scan i [] st = st"
| "structural_scan i (paragraph # rest) st =
     structural_scan (Suc i) rest (structural_step i paragraph st)"

text \<open>
  The loop after the scan (lines 2551-2559): one error for each required title that was not
  met, with the title as element and index 0.
\<close>

fun missing_elements :: "(ustr \<times> bool) list \<Rightarrow> error_dict list \<Rightarrow> error_dict list" where
  "missing_elements [] errs = errs"
| "missing_elements ((element, present) # rest) errs =
     missing_elements rest
       (if \<not> present
        then add_error errs (msg_missing_element element) (StrElement element) (Some 0)
               (Some PARAGRAPH)
        else errs)"

definition check_structural_elements :: "Document \<Rightarrow> error_dict list \<times> nat list" where
  "check_structural_elements doc =
     (let st = structural_scan 0 (paragraphs doc) initial_structural_state in
      (missing_elements (s_expected_elements st) (s_errors st), s_structural_paragraphs st))"

text \<open>
  The text of a paragraph is an appendix header for the scan when the letter check is
  reached: it is not empty, not a required title, and starts with the appendix word. Its
  letter is what follows the first eleven code points, stripped.
\<close>

definition appendix_header :: "Paragraph \<Rightarrow> bool" where
  "appendix_header paragraph =
     (strip (p_text paragraph) \<noteq> [] \<and>
      strip (p_text paragraph) \<notin> {title_introduction, title_conclusion, title_resources} \<and>
      startswith (strip (p_text paragraph)) appendix_word)"

definition appendix_letter :: "Paragraph \<Rightarrow> ustr" where
  "appendix_letter paragraph = strip (drop 11 (strip (p_text paragraph)))"

text \<open>
  Example documents: one appendix header with the letter U+0401 (Yo), and the appendix
  header with the letter U+0410 (A) twice.
\<close>

definition plain_paragraph :: "ustr \<Rightarrow> Paragraph" where
  "plain_paragraph t =
     \<lparr>p_text = t, p_style_name = [],
      p_runs = [\<lparr>r_text = t, r_font_name = Some times_new_roman, r_font_size = Some 177800,
                 r_bold = None, r_shd = 0\<rparr>],
      p_comments = []\<rparr>"

definition appendix_yo_document :: Document where
  "appendix_yo_document =
     \<lparr>paragraphs = [plain_paragraph (appendix_word @ [32, 1025])], tables = []\<rparr>"

definition appendix_twice_document :: Document where
  "appendix_twice_document =
     \<lparr>paragraphs = [plain_paragraph (appendix_word @ [32, 1040]),
                    plain_paragraph (appendix_word @ [32, 1040])],
      tables = []\<rparr>"

text \<open>A document with one appendix header for each entry of the list of allowed letters.\<close>

definition all_appendices_document :: Document where
  "all_appendices_document =
     \<lparr>paragraphs = map (\<lambda>l. plain_paragraph (appendix_word @ [32] @ l)) allowed_appendix_letters,
      tables = []\<rparr>"

text \<open>The keys of \<^verbatim>\<open>expected_elements\<close> are the three required titles; no step changes them.\<close>

definition keys_ok :: "structural_state \<Rightarrow> bool" where
  "keys_ok st = (map fst (s_expected_elements st) = [title_introduction, title_conclusion, title_resources])"

section \<open>validate_lists: terminal punctuation of a list group\<close>


























section \<open>check_headings_formatting: numbering continuity\<close>





























section \<open>check_table_formatting: consistency of the numbering format of captions\<close>


















section \<open>validate_prefix_format and its calls in extract_list_items\<close>













text \<open>
  What \<^verbatim>\<open>extract_list_items\<close> reads outside of the text of the paragraphs. The catalogue
  \<^verbatim>\<open>num_map\<close> that \<^verbatim>\<open>get_numbering_formats\<close> builds, from a numbering id and a level to
  the format and the template of the level (\<open>None\<close> for an attribute that is absent). For the
  paragraph at a position, its numbering reference: \<open>Inr None\<close> when it has no \<^verbatim>\<open>numPr\<close>,
  \<open>Inr (Some (nid, lvl))\<close> with the id and the level when it has one, and \<open>Inl e\<close> when
  reading the reference raises (lines 418-419: a \<^verbatim>\<open>numPr\<close> without the element of the id or
  of the level, a level that is not a number). And whether the paragraph has a page break (a
  run with a break of type page, or the property \<^verbatim>\<open>pageBreakBefore\<close>).
\<close>

datatype list_exception = AttributeError | TypeError | ValueError













section \<open>Properties of remove_duplicate_errors\<close>

lemma first_occurrences_keys_subset:
  "set (map key (first_occurrences key xs)) \<subseteq> set (map key xs)"
proof (induction key xs rule: first_occurrences.induct)
  case (1 key)
  show ?case by simp
next
  case (2 key x xs)
  have "set (map key (filter (\<lambda>y. key y \<noteq> key x) xs)) \<subseteq> set (map key xs)"
    by auto
  with 2 show ?case by auto
qed

lemma first_occurrences_distinct: "distinct (map key (first_occurrences key xs))"
proof (induction key xs rule: first_occurrences.induct)
  case (1 key)
  show ?case by simp
next
  case (2 key x xs)
  have "key x \<notin> set (map key (filter (\<lambda>y. key y \<noteq> key x) xs))"
    by auto
  with first_occurrences_keys_subset [of key "filter (\<lambda>y. key y \<noteq> key x) xs"]
  have "key x \<notin> set (map key (first_occurrences key (filter (\<lambda>y. key y \<noteq> key x) xs)))"
    by blast
  with 2 show ?case by simp
qed

lemma first_occurrences_subseq: "subseq (first_occurrences key xs) xs"
proof (induction key xs rule: first_occurrences.induct)
  case (1 key)
  show ?case by simp
next
  case (2 key x xs)
  have "subseq (filter (\<lambda>y. key y \<noteq> key x) xs) xs"
    by simp
  with 2 have "subseq (first_occurrences key (filter (\<lambda>y. key y \<noteq> key x) xs)) xs"
    by (rule subseq_order.trans)
  then show ?case by simp
qed

lemma remove_duplicate_errors_loop_eq:
  "remove_duplicate_errors_loop errors seen unique_errors =
     unique_errors @ first_occurrences error_key (filter (\<lambda>e. error_key e \<notin> seen) errors)"
proof (induction errors arbitrary: seen unique_errors)
  case Nil
  show ?case by simp
next
  case (Cons error errors)
  have comm: "filter (\<lambda>y. error_key y \<noteq> error_key error) (filter (\<lambda>e. error_key e \<notin> seen) errors)
      = filter (\<lambda>e. error_key e \<notin> insert (error_key error) seen) errors"
    by (induction errors) auto
  show ?case
  proof (cases "error_key error \<in> seen")
    case True
    with Cons show ?thesis by simp
  next
    case False
    with Cons comm show ?thesis by (simp add: Let_def)
  qed
qed

text \<open>
  Claim C4. For every list of error records, the result of \<^verbatim>\<open>remove_duplicate_errors\<close>
  has no two records with the same (category, message, paragraph text, location index,
  element kind) tuple, and it keeps the original order with the first occurrence of each tuple:
  it is the list of first occurrences, and a subsequence of the input.
\<close>

theorem remove_duplicate_errors_first_unique:
  "distinct (map error_key (remove_duplicate_errors errors)) \<and>
   remove_duplicate_errors errors = first_occurrences error_key errors \<and>
   subseq (remove_duplicate_errors errors) errors"
  by (simp add: remove_duplicate_errors_def remove_duplicate_errors_loop_eq
      first_occurrences_distinct first_occurrences_subseq)

section \<open>Properties of add_comments_to_document\<close>

lemma comment_error_lengths:
  "length (paragraphs (comment_error raises a i doc e)) = length (paragraphs doc) \<and>
   length (tables (comment_error raises a i doc e)) = length (tables doc)"
  by (simp add: comment_error_def Let_def split: option.splits)

lemma locatable_comment_error:
  "locatable (comment_error raises a i doc e) e' = locatable doc e'"
  by (simp add: locatable_def comment_error_lengths)

lemma comment_error_unlocatable:
  "\<not> locatable doc e \<Longrightarrow> comment_error raises a i doc e = doc"
  by (auto simp add: locatable_def comment_error_def Let_def)

lemma foldl_comment_error_filter:
  assumes "\<And>e. locatable d e = locatable doc e"
  shows "foldl (comment_error raises a i) doc es =
         foldl (comment_error raises a i) doc (filter (locatable d) es)"
  using assms
proof (induction es arbitrary: doc)
  case Nil
  show ?case by simp
next
  case (Cons e es)
  have inv: "\<And>e'. locatable d e' = locatable (comment_error raises a i doc e) e'"
    using Cons.prems by (simp add: locatable_comment_error)
  show ?case
  proof (cases "locatable doc e")
    case True
    with Cons.prems have "locatable d e" by simp
    with Cons.IH [OF inv] show ?thesis by simp
  next
    case False
    with Cons.prems have nd: "\<not> locatable d e" by simp
    from False have "comment_error raises a i doc e = doc"
      by (rule comment_error_unlocatable)
    with Cons.IH [of doc] Cons.prems nd show ?thesis by simp
  qed
qed


lemma write_file_Inr:
  "write_file w path f = Inr w' \<Longrightarrow>
   writable w path \<and> w' = w\<lparr>files := (files w)(path \<mapsto> f), writes := writes w @ [path]\<rparr>"
  by (auto simp add: writable_def write_file_def split: if_splits)












text \<open>
  Claim C10. \<^verbatim>\<open>add_comments_to_document\<close> is total over its error records. A record without
  a location (index \<open>-1\<close> or outside the paragraph list, or outside the table list for a table
  record, or an element type that is neither) leaves the document as it is; the function
  does what it does on the records that have a location, in their order; no exception comes
  out of the loop, and the only step that can raise is the one save after the loop: when the
  function returns, exactly one write has been added to the log, of the annotated document at
  the output path.
\<close>

theorem add_comments_to_document_total:
  "(\<not> locatable doc err \<longrightarrow> comment_error raises author initials doc err = doc) \<and>
   add_comments_to_document raises w doc errors output_path author initials =
     save_document w
       (foldl (comment_error raises author initials) doc (filter (locatable doc) errors))
       output_path \<and>
   (\<forall>w'. add_comments_to_document raises w doc errors output_path author initials = Inr w' \<longrightarrow>
      writes w' = writes w @ [output_path] \<and>
      files w' output_path =
        Some (Docx (foldl (comment_error raises author initials) doc
                      (filter (locatable doc) errors))))"
proof -
  have eq: "foldl (comment_error raises author initials) doc errors =
      foldl (comment_error raises author initials) doc (filter (locatable doc) errors)"
    by (rule foldl_comment_error_filter) simp
  have "\<And>w'. save_document w
       (foldl (comment_error raises author initials) doc (filter (locatable doc) errors))
       output_path = Inr w' \<Longrightarrow>
     writes w' = writes w @ [output_path] \<and>
     files w' output_path =
       Some (Docx (foldl (comment_error raises author initials) doc
                     (filter (locatable doc) errors)))"
    unfolding save_document_def by (drule write_file_Inr) simp
  then show ?thesis
    by (simp add: add_comments_to_document_def eq comment_error_unlocatable)
qed

text \<open>
  An instance: a document of three paragraphs and no table, and four records: one without
  index (\<open>-1\<close>), one for paragraph 7, one for table 0, one for paragraph 1. Only the last one
  has a location; the saved document has one comment, on paragraph 1.
\<close>

theorem add_comments_to_document_total_witness:
  "\<not> locatable titles_document (unlocated_error (- 1) (Some PARAGRAPH)) \<and>
   comment_error no_raise author_name author_initials titles_document
     (unlocated_error (- 1) (Some PARAGRAPH)) = titles_document \<and>
   filter (locatable titles_document)
     [unlocated_error (- 1) (Some PARAGRAPH), unlocated_error 7 (Some PARAGRAPH),
      unlocated_error 0 (Some TABLE), unlocated_error 1 (Some PARAGRAPH)]
     = [unlocated_error 1 (Some PARAGRAPH)] \<and>
   (\<exists>w'. add_comments_to_document no_raise (world_of titles_document) titles_document
       [unlocated_error (- 1) (Some PARAGRAPH), unlocated_error 7 (Some PARAGRAPH),
        unlocated_error 0 (Some TABLE), unlocated_error 1 (Some PARAGRAPH)]
       out_path author_name author_initials = Inr w' \<and>
     writes w' = [out_path] \<and>
     files w' out_path =
       Some (Docx (titles_document\<lparr>paragraphs :=
         [title_paragraph title_introduction,
          (title_paragraph title_conclusion)\<lparr>p_comments :=
             [\<lparr>c_text = placeholder_text, c_author = author_name,
               c_initials = author_initials\<rparr>]\<rparr>,
          title_paragraph title_resources]\<rparr>)))"
proof -
  let ?es = "[unlocated_error (- 1) (Some PARAGRAPH), unlocated_error 7 (Some PARAGRAPH),
        unlocated_error 0 (Some TABLE), unlocated_error 1 (Some PARAGRAPH)]"
  have nl: "\<not> locatable titles_document (unlocated_error (- 1) (Some PARAGRAPH))"
    by (simp add: locatable_def unlocated_error_def)
  have fl: "filter (locatable titles_document) ?es = [unlocated_error 1 (Some PARAGRAPH)]"
    by (simp add: locatable_def unlocated_error_def titles_document_def)
  note t = add_comments_to_document_total [of titles_document
      "unlocated_error (- 1) (Some PARAGRAPH)" no_raise author_name author_initials
      "world_of titles_document" ?es out_path]
  from t nl have c1: "comment_error no_raise author_name author_initials titles_document
     (unlocated_error (- 1) (Some PARAGRAPH)) = titles_document"
    by blast
  from t have c2: "add_comments_to_document no_raise (world_of titles_document) titles_document
       ?es out_path author_name author_initials =
     save_document (world_of titles_document)
       (foldl (comment_error no_raise author_name author_initials) titles_document
          (filter (locatable titles_document) ?es)) out_path"
    by blast
  have sv: "save_document (world_of titles_document)
       (foldl (comment_error no_raise author_name author_initials) titles_document
          [unlocated_error 1 (Some PARAGRAPH)]) out_path =
     Inr ((world_of titles_document)\<lparr>files := (files (world_of titles_document))(out_path \<mapsto>
        Docx (titles_document\<lparr>paragraphs :=
         [title_paragraph title_introduction,
          (title_paragraph title_conclusion)\<lparr>p_comments :=
             [\<lparr>c_text = placeholder_text, c_author = author_name,
               c_initials = author_initials\<rparr>]\<rparr>,
          title_paragraph title_resources]\<rparr>)), writes := [out_path]\<rparr>)"
    by (simp add: save_document_def write_file_def world_of_def in_path_def out_path_def
        comment_error_def unlocated_error_def titles_document_def add_comment_def no_raise_def
        title_paragraph_def Let_def)
  show ?thesis
    using nl c1 fl c2 sv by simp
qed

section \<open>Properties of check_document_formatting\<close>








lemma world_of_facts:
  "path_exists (world_of doc) in_path" "\<not> path_exists (world_of doc) out_path"
  "writable (world_of doc) json_path" "files (world_of doc) json_path = None"
  "writes (world_of doc) = []"
  by (simp_all add: path_exists_def writable_def world_of_def in_path_def out_path_def
      json_path_def)

text \<open>
  Claim C1. When the input path does not reference an existing file, the entry point returns
  \<^verbatim>\<open>False\<close> and the file system is what it was: neither the copy nor the report is created.
\<close>

theorem check_document_formatting_missing_input:
  "\<not> path_exists w file_path \<Longrightarrow>
   check_document_formatting passes raises w file_path new_file_path json_file_path = (False, w)"
  by (simp add: check_document_formatting_def)

theorem check_document_formatting_missing_input_witness:
  "\<not> path_exists (world_of empty_document) out_path \<and>
   check_document_formatting passes_missing no_raise (world_of empty_document)
     out_path in_path json_path = (False, world_of empty_document) \<and>
   files (world_of empty_document) json_path = None \<and> writes (world_of empty_document) = []"
  using check_document_formatting_missing_input
    [of "world_of empty_document" out_path passes_missing no_raise in_path json_path]
  by (simp add: world_of_facts)








section \<open>Properties of the scan of the structural elements\<close>

lemma allowed_facts:
  "length allowed_appendix_letters = 25" "distinct allowed_appendix_letters"
  "\<forall>l\<in>set allowed_appendix_letters. length l = 1"
  by (simp_all add: allowed_appendix_letters_def)

lemma structural_step_keys:
  "map fst (s_expected_elements (structural_step i p st)) = map fst (s_expected_elements st)"
proof -
  have "map fst (map (\<lambda>(k, v). if k = t then (k, True) else (k, v)) xs) = map fst xs" for t :: ustr and xs :: "(ustr \<times> bool) list"
    by (induction xs) auto
  then show ?thesis
    by (simp add: structural_step_def Let_def)
qed

lemma structural_step_letters:
  "s_appendix_letters (structural_step i p st) \<subseteq> s_appendix_letters st \<union> set allowed_appendix_letters"
  by (auto simp add: structural_step_def Let_def)

lemma structural_step_errors:
  "set (s_errors st) \<subseteq> set (s_errors (structural_step i p st))"
  by (auto simp add: structural_step_def Let_def add_error_def)

lemma structural_step_letters_mono:
  "s_appendix_letters st \<subseteq> s_appendix_letters (structural_step i p st)"
  by (auto simp add: structural_step_def Let_def)

lemma structural_scan_keys:
  "map fst (s_expected_elements (structural_scan i ps st)) = map fst (s_expected_elements st)"
  by (induction ps arbitrary: i st) (simp_all add: structural_step_keys)

lemma structural_scan_letters:
  "s_appendix_letters (structural_scan i ps st) \<subseteq> s_appendix_letters st \<union> set allowed_appendix_letters"
proof (induction ps arbitrary: i st)
  case Nil
  show ?case by simp
next
  case (Cons p ps)
  from Cons [of "Suc i" "structural_step i p st"] structural_step_letters [of i p st]
  show ?case by auto
qed

lemma structural_scan_errors:
  "set (s_errors st) \<subseteq> set (s_errors (structural_scan i ps st))"
proof (induction ps arbitrary: i st)
  case Nil
  show ?case by simp
next
  case (Cons p ps)
  from Cons [of "structural_step i p st" "Suc i"] structural_step_errors [of st i p]
  show ?case by auto
qed

lemma structural_scan_letters_mono:
  "s_appendix_letters st \<subseteq> s_appendix_letters (structural_scan i ps st)"
proof (induction ps arbitrary: i st)
  case Nil
  show ?case by simp
next
  case (Cons p ps)
  from Cons [of "structural_step i p st" "Suc i"] structural_step_letters_mono [of st i p]
  show ?case by auto
qed

lemma structural_scan_append:
  "structural_scan i (xs @ ys) st = structural_scan (i + length xs) ys (structural_scan i xs st)"
  by (induction xs arbitrary: i st) simp_all

lemma missing_elements_mono: "set errs \<subseteq> set (missing_elements ee errs)"
proof (induction ee arbitrary: errs)
  case Nil
  show ?case by simp
next
  case (Cons a ee)
  obtain element present where a: "a = (element, present)" by (cases a)
  from Cons [of "if \<not> present then add_error errs (msg_missing_element element) (StrElement element) (Some 0) (Some PARAGRAPH) else errs"]
  show ?case by (auto simp add: a add_error_def)
qed

lemma structural_step_header:
  assumes k: "keys_ok st" and h: "appendix_header p"
  shows "appendix_letter p \<notin> set allowed_appendix_letters \<Longrightarrow>
           new_error (msg_invalid_letter (appendix_letter p)) (ParagraphElement p) (Some (int i)) (Some PARAGRAPH)
             \<in> set (s_errors (structural_step i p st))"
    and "appendix_letter p \<in> set allowed_appendix_letters \<Longrightarrow> appendix_letter p \<in> s_appendix_letters st \<Longrightarrow>
           new_error (msg_duplicate_letter (appendix_letter p)) (ParagraphElement p) (Some (int i)) (Some PARAGRAPH)
             \<in> set (s_errors (structural_step i p st))"
    and "appendix_letter p \<in> set allowed_appendix_letters \<Longrightarrow>
           appendix_letter p \<in> s_appendix_letters (structural_step i p st)"
  using k h allowed_facts(3)
  by (auto simp add: keys_ok_def appendix_header_def appendix_letter_def structural_step_def
      Let_def add_error_def)

lemma keys_ok_scan: "keys_ok (structural_scan 0 ps initial_structural_state)"
  by (simp add: keys_ok_def structural_scan_keys initial_structural_state_def)

lemma scan_split:
  assumes "i < length ps"
  shows "structural_scan 0 ps st =
     structural_scan (Suc i) (drop (Suc i) ps)
       (structural_step i (ps ! i) (structural_scan 0 (take i ps) st))"
proof -
  have "ps = take i ps @ (ps ! i) # drop (Suc i) ps"
    using assms by (simp add: id_take_nth_drop)
  then have "structural_scan 0 ps st = structural_scan 0 (take i ps @ (ps ! i) # drop (Suc i) ps) st"
    by simp
  also have "\<dots> = structural_scan (0 + length (take i ps)) ((ps ! i) # drop (Suc i) ps) (structural_scan 0 (take i ps) st)"
    by (rule structural_scan_append)
  finally show ?thesis using assms by simp
qed


lemmas structural_eval = structural_step_def initial_structural_state_def Let_def strip_def isspace_def
  appendix_word_def title_introduction_def title_conclusion_def title_resources_def startswith_def
  allowed_appendix_letters_def plain_paragraph_def

text \<open>
  Claim C8, as stated, fails on the size of the alphabet: the list of allowed letters has 25
  entries, not 24. In the document with one appendix header per allowed letter the scan
  reports no letter error and accepts 25 different letters.
\<close>

theorem appendix_alphabet_size_counterexample:
  "s_errors (structural_scan 0 (paragraphs all_appendices_document) initial_structural_state) = [] \<and>
   s_appendix_letters (structural_scan 0 (paragraphs all_appendices_document) initial_structural_state)
     = set allowed_appendix_letters \<and>
   card (s_appendix_letters (structural_scan 0 (paragraphs all_appendices_document)
           initial_structural_state)) = 25"
proof -
  have "structural_scan 0 (paragraphs all_appendices_document) initial_structural_state =
     initial_structural_state\<lparr>s_structural_paragraphs := [0..<25],
        s_appendix_letters := set allowed_appendix_letters\<rparr>"
    apply (simp add: all_appendices_document_def structural_eval upt_rec)
    apply auto
    done
  moreover have "card (set allowed_appendix_letters) = 25"
    using allowed_facts(1,2) distinct_card by fastforce
  ultimately show ?thesis
    by (simp add: initial_structural_state_def)
qed

text \<open>
  Claim C8, amended. The fixed alphabet has 25 capital Cyrillic letters (U+0410 to U+042F
  without Ze, Short I, O, Che, the hard sign, Yeru and the soft sign; Yo, U+0401, is not in
  it). Throughout the scan of \<^verbatim>\<open>check_structural_elements\<close> the set of accepted appendix
  letters holds single letters of this alphabet only. A paragraph that reaches the letter
  check with anything else than one allowed letter gets the invalid-letter error, at its own
  index; and no letter is accepted twice: an appendix header whose allowed letter was already
  used by an earlier header gets the duplicate-letter error, at the index of the later one.
\<close>

theorem appendix_letters_allowed_unique:
  "length allowed_appendix_letters = 25 \<and> distinct allowed_appendix_letters \<and>
   (\<forall>l\<in>set allowed_appendix_letters. length l = 1) \<and>
   (\<forall>c\<in>{1025, 1047, 1049, 1054, 1063, 1066, 1067, 1068}. [c] \<notin> set allowed_appendix_letters) \<and>
   s_appendix_letters (structural_scan 0 (paragraphs doc) initial_structural_state)
     \<subseteq> set allowed_appendix_letters \<and>
   (\<forall>i. i < length (paragraphs doc) \<and> appendix_header (paragraphs doc ! i) \<and>
        appendix_letter (paragraphs doc ! i) \<notin> set allowed_appendix_letters \<longrightarrow>
        new_error (msg_invalid_letter (appendix_letter (paragraphs doc ! i)))
          (ParagraphElement (paragraphs doc ! i)) (Some (int i)) (Some PARAGRAPH)
          \<in> set (fst (check_structural_elements doc))) \<and>
   (\<forall>i j. j < i \<and> i < length (paragraphs doc) \<and> appendix_header (paragraphs doc ! j) \<and>
        appendix_header (paragraphs doc ! i) \<and>
        appendix_letter (paragraphs doc ! i) = appendix_letter (paragraphs doc ! j) \<and>
        appendix_letter (paragraphs doc ! i) \<in> set allowed_appendix_letters \<longrightarrow>
        new_error (msg_duplicate_letter (appendix_letter (paragraphs doc ! i)))
          (ParagraphElement (paragraphs doc ! i)) (Some (int i)) (Some PARAGRAPH)
          \<in> set (fst (check_structural_elements doc)))"
proof -
  let ?ps = "paragraphs doc"
  let ?init = "initial_structural_state"
  have final: "set (s_errors (structural_scan 0 ?ps ?init)) \<subseteq> set (fst (check_structural_elements doc))"
    by (simp add: check_structural_elements_def Let_def missing_elements_mono)
  have excl: "\<forall>c\<in>{1025, 1047, 1049, 1054, 1063, 1066, 1067, 1068}. [c] \<notin> set allowed_appendix_letters"
    by (simp add: allowed_appendix_letters_def)
  have inv: "s_appendix_letters (structural_scan 0 ?ps ?init) \<subseteq> set allowed_appendix_letters"
    using structural_scan_letters [of 0 ?ps ?init] by (simp add: initial_structural_state_def)
  have bad: "new_error (msg_invalid_letter (appendix_letter (?ps ! i)))
          (ParagraphElement (?ps ! i)) (Some (int i)) (Some PARAGRAPH)
          \<in> set (fst (check_structural_elements doc))"
    if i: "i < length ?ps" and h: "appendix_header (?ps ! i)"
      and n: "appendix_letter (?ps ! i) \<notin> set allowed_appendix_letters" for i
  proof -
    let ?st = "structural_scan 0 (take i ?ps) ?init"
    have "new_error (msg_invalid_letter (appendix_letter (?ps ! i)))
          (ParagraphElement (?ps ! i)) (Some (int i)) (Some PARAGRAPH)
          \<in> set (s_errors (structural_step i (?ps ! i) ?st))"
      using keys_ok_scan h n by (rule structural_step_header(1))
    then have "new_error (msg_invalid_letter (appendix_letter (?ps ! i)))
          (ParagraphElement (?ps ! i)) (Some (int i)) (Some PARAGRAPH)
          \<in> set (s_errors (structural_scan 0 ?ps ?init))"
      using structural_scan_errors scan_split [OF i] by (metis subsetD)
    with final show ?thesis by blast
  qed
  have dup: "new_error (msg_duplicate_letter (appendix_letter (?ps ! i)))
          (ParagraphElement (?ps ! i)) (Some (int i)) (Some PARAGRAPH)
          \<in> set (fst (check_structural_elements doc))"
    if ji: "j < i" and i: "i < length ?ps" and hj: "appendix_header (?ps ! j)"
      and hi: "appendix_header (?ps ! i)"
      and eq: "appendix_letter (?ps ! i) = appendix_letter (?ps ! j)"
      and a: "appendix_letter (?ps ! i) \<in> set allowed_appendix_letters" for i j
  proof -
    let ?pre = "take i ?ps"
    let ?st = "structural_scan 0 ?pre ?init"
    have j: "j < length ?pre" and pj: "?pre ! j = ?ps ! j"
      using ji i by simp_all
    have "appendix_letter (?pre ! j) \<in>
        s_appendix_letters (structural_step j (?pre ! j) (structural_scan 0 (take j ?pre) ?init))"
      using keys_ok_scan hj a eq pj by (intro structural_step_header(3)) simp_all
    then have "appendix_letter (?pre ! j) \<in> s_appendix_letters ?st"
      using structural_scan_letters_mono scan_split [OF j] by (metis subsetD)
    then have "appendix_letter (?ps ! i) \<in> s_appendix_letters ?st"
      using eq pj by simp
    with keys_ok_scan hi a
    have "new_error (msg_duplicate_letter (appendix_letter (?ps ! i)))
          (ParagraphElement (?ps ! i)) (Some (int i)) (Some PARAGRAPH)
          \<in> set (s_errors (structural_step i (?ps ! i) ?st))"
      by (rule structural_step_header(2))
    then have "new_error (msg_duplicate_letter (appendix_letter (?ps ! i)))
          (ParagraphElement (?ps ! i)) (Some (int i)) (Some PARAGRAPH)
          \<in> set (s_errors (structural_scan 0 ?ps ?init))"
      using structural_scan_errors scan_split [OF i] by (metis subsetD)
    with final show ?thesis by blast
  qed
  from allowed_facts excl inv bad dup show ?thesis by blast
qed

text \<open>
  Instances: the header with the letter Yo gets the invalid-letter error; of two headers with
  the letter A the second gets the duplicate-letter error, and the errors of that document are
  this one and the three missing sections.
\<close>

theorem appendix_letters_allowed_unique_witness:
  "0 < length (paragraphs appendix_yo_document) \<and>
   appendix_header (paragraphs appendix_yo_document ! 0) \<and>
   appendix_letter (paragraphs appendix_yo_document ! 0) = [1025] \<and>
   [1025] \<notin> set allowed_appendix_letters \<and>
   new_error (msg_invalid_letter [1025])
     (ParagraphElement (plain_paragraph (appendix_word @ [32, 1025]))) (Some 0) (Some PARAGRAPH)
     \<in> set (fst (check_structural_elements appendix_yo_document)) \<and>
   appendix_header (paragraphs appendix_twice_document ! 0) \<and>
   appendix_header (paragraphs appendix_twice_document ! 1) \<and>
   appendix_letter (paragraphs appendix_twice_document ! 1) = [1040] \<and>
   appendix_letter (paragraphs appendix_twice_document ! 0) = [1040] \<and>
   [1040] \<in> set allowed_appendix_letters \<and>
   new_error (msg_duplicate_letter [1040])
     (ParagraphElement (plain_paragraph (appendix_word @ [32, 1040]))) (Some 1) (Some PARAGRAPH)
     \<in> set (fst (check_structural_elements appendix_twice_document)) \<and>
   fst (check_structural_elements appendix_twice_document) =
     [new_error (msg_duplicate_letter [1040])
        (ParagraphElement (plain_paragraph (appendix_word @ [32, 1040]))) (Some 1)
        (Some PARAGRAPH),
      new_error (msg_missing_element title_introduction) (StrElement title_introduction)
        (Some 0) (Some PARAGRAPH),
      new_error (msg_missing_element title_conclusion) (StrElement title_conclusion)
        (Some 0) (Some PARAGRAPH),
      new_error (msg_missing_element title_resources) (StrElement title_resources)
        (Some 0) (Some PARAGRAPH)]"
proof -
  have yo: "0 < length (paragraphs appendix_yo_document)"
    "appendix_header (paragraphs appendix_yo_document ! 0)"
    "appendix_letter (paragraphs appendix_yo_document ! 0) = [1025]"
    "[1025] \<notin> set allowed_appendix_letters"
    "paragraphs appendix_yo_document ! 0 = plain_paragraph (appendix_word @ [32, 1025])"
    by (simp_all add: appendix_yo_document_def appendix_header_def appendix_letter_def
        plain_paragraph_def strip_def isspace_def appendix_word_def startswith_def
        title_introduction_def title_conclusion_def title_resources_def
        allowed_appendix_letters_def)
  have tw: "(0::nat) < 1" "1 < length (paragraphs appendix_twice_document)"
    "appendix_header (paragraphs appendix_twice_document ! 0)"
    "appendix_header (paragraphs appendix_twice_document ! 1)"
    "appendix_letter (paragraphs appendix_twice_document ! 1) = [1040]"
    "appendix_letter (paragraphs appendix_twice_document ! 0) = [1040]"
    "[1040] \<in> set allowed_appendix_letters"
    "paragraphs appendix_twice_document ! 1 = plain_paragraph (appendix_word @ [32, 1040])"
    by (simp_all add: appendix_twice_document_def appendix_header_def appendix_letter_def
        plain_paragraph_def strip_def isspace_def appendix_word_def startswith_def
        title_introduction_def title_conclusion_def title_resources_def
        allowed_appendix_letters_def)
  have ev: "fst (check_structural_elements appendix_twice_document) =
     [new_error (msg_duplicate_letter [1040])
        (ParagraphElement (plain_paragraph (appendix_word @ [32, 1040]))) (Some 1)
        (Some PARAGRAPH),
      new_error (msg_missing_element title_introduction) (StrElement title_introduction)
        (Some 0) (Some PARAGRAPH),
      new_error (msg_missing_element title_conclusion) (StrElement title_conclusion)
        (Some 0) (Some PARAGRAPH),
      new_error (msg_missing_element title_resources) (StrElement title_resources)
        (Some 0) (Some PARAGRAPH)]"
    by (simp add: check_structural_elements_def appendix_twice_document_def add_error_def
        structural_step_def initial_structural_state_def Let_def strip_def isspace_def
        startswith_def allowed_appendix_letters_def plain_paragraph_def appendix_word_def)
      (simp add: title_introduction_def title_conclusion_def title_resources_def)
  from appendix_letters_allowed_unique [of appendix_yo_document] yo
  have e1: "new_error (msg_invalid_letter [1025])
     (ParagraphElement (plain_paragraph (appendix_word @ [32, 1025]))) (Some 0) (Some PARAGRAPH)
     \<in> set (fst (check_structural_elements appendix_yo_document))"
    by (metis of_nat_0)
  from appendix_letters_allowed_unique [of appendix_twice_document] tw
  have e2: "new_error (msg_duplicate_letter [1040])
     (ParagraphElement (plain_paragraph (appendix_word @ [32, 1040]))) (Some 1) (Some PARAGRAPH)
     \<in> set (fst (check_structural_elements appendix_twice_document))"
    by (metis of_nat_1)
  from yo tw e1 e2 ev show ?thesis by simp
qed


section \<open>Properties of the punctuation check of list groups\<close>










section \<open>Properties of the numbering check of headings\<close>























section \<open>Properties of the consistency check of table captions\<close>





















section \<open>Properties of the validation of list prefixes\<close>



















end
